theory Spec2Isabelle
  imports Main
begin

section \<open>Classifier: \<open>LambdaErrorMonitor.extractErrorPatterns\<close> (error-monitor.js)\<close>

text \<open>
  The keys of the \<open>patterns\<close> object, in the order the object literal declares them:
  timeout, memory, permission, import, syntax, runtime, other.
\<close>

datatype category = Timeout | Memory | Permission | Import | Syntax | Runtime | Other

definition categories :: "category list" where
  "categories = [Timeout, Memory, Permission, Import, Syntax, Runtime, Other]"

text \<open>
  A log message is a string of 8-bit characters. \<open>toLowerCase\<close> maps the letters A..Z to
  a..z and leaves every other character as it is; \<open>String.includes\<close> is the substring test.
\<close>

definition toLowerCase_char :: "char \<Rightarrow> char" where
  "toLowerCase_char c =
     (let n = (of_char c :: nat) in if 65 \<le> n \<and> n \<le> 90 then char_of (n + 32) else c)"

definition toLowerCase :: "string \<Rightarrow> string" where
  "toLowerCase s = map toLowerCase_char s"

fun startsWith :: "string \<Rightarrow> string \<Rightarrow> bool" where
  "startsWith s [] = True"
| "startsWith [] (p # ps) = False"
| "startsWith (c # cs) (p # ps) = (c = p \<and> startsWith cs ps)"

fun includes_str :: "string \<Rightarrow> string \<Rightarrow> bool" where
  "includes_str [] p = (p = [])"
| "includes_str (c # cs) p = (startsWith (c # cs) p \<or> includes_str cs p)"

text \<open>The if / else-if chain of the \<open>forEach\<close> body: the first matching branch wins.\<close>

definition classify :: "string \<Rightarrow> category" where
  "classify msg =
     (let message = toLowerCase msg in
      if includes_str message ''timeout'' \<or> includes_str message ''timed out'' then Timeout
      else if includes_str message ''memory'' \<or> includes_str message ''out of memory'' then Memory
      else if includes_str message ''permission'' \<or> includes_str message ''access denied'' then Permission
      else if includes_str message ''cannot find module'' \<or> includes_str message ''import'' then Import
      else if includes_str message ''syntax error'' \<or> includes_str message ''unexpected token'' then Syntax
      else if includes_str message ''runtime error'' \<or> includes_str message ''typeerror'' then Runtime
      else Other)"

text \<open>
  The \<open>patterns\<close> object maps each of the seven keys to a count; every count starts at 0
  and \<open>patterns.k++\<close> adds one to the count of key \<open>k\<close>.
\<close>

type_synonym patterns = "category \<Rightarrow> nat"

definition initial_patterns :: patterns where
  "initial_patterns = (\<lambda>_. 0)"

definition increment :: "patterns \<Rightarrow> category \<Rightarrow> patterns" where
  "increment p c = p(c := p c + 1)"

fun forEach_log :: "patterns \<Rightarrow> string list \<Rightarrow> patterns" where
  "forEach_log p [] = p"
| "forEach_log p (msg # logs) = forEach_log (increment p (classify msg)) logs"

text \<open>
  \<open>Object.entries(patterns)\<close> lists the pairs in declaration order, and
  \<open>reduce((a, b) => patterns[a[0]] > patterns[b[0]] ? a : b)\<close>, called without an initial
  value, starts from the first entry and folds the callback over the other six.
\<close>

definition entries :: "patterns \<Rightarrow> (category \<times> nat) list" where
  "entries p = map (\<lambda>c. (c, p c)) categories"

definition pick :: "patterns \<Rightarrow> category \<times> nat \<Rightarrow> category \<times> nat \<Rightarrow> category \<times> nat" where
  "pick p a b = (if p (fst a) > p (fst b) then a else b)"

definition reduce_entries :: "patterns \<Rightarrow> category \<times> nat" where
  "reduce_entries p = foldl (pick p) (hd (entries p)) (tl (entries p))"

record classification =
  patterns_of :: patterns
  totalErrors :: nat
  mostCommon :: category

definition extractErrorPatterns :: "string list \<Rightarrow> classification" where
  "extractErrorPatterns errorLogs =
     (let p = forEach_log initial_patterns errorLogs in
      \<lparr> patterns_of = p,
        totalErrors = length errorLogs,
        mostCommon = fst (reduce_entries p) \<rparr>)"

text \<open>The sum of the seven counts.\<close>

definition count_sum :: "patterns \<Rightarrow> nat" where
  "count_sum p = sum_list (map p categories)"

text \<open>The position of a category in the declaration order (timeout is 0, other is 6).\<close>

definition declared_at :: "category \<Rightarrow> nat" where
  "declared_at c = length (takeWhile (\<lambda>x. x \<noteq> c) categories)"

section \<open>Remediation catalog of the monitor: \<open>LambdaErrorMonitor.simulateKnowledgeAnalysis\<close>\<close>

text \<open>
  The \<open>solution\<close> objects of the \<open>recommendations\<close> table, by their \<open>type\<close> tag and
  numeric parameter (the \<open>message\<close> texts are left out).
\<close>

datatype sim_solution =
    SimUpdateTimeout nat
  | SimUpdateMemory nat
  | SimIamUpdate
  | SimDependencyFix
  | SimSyntaxFix
  | SimRuntimeFix

record recommendation =
  rec_shouldFix :: bool
  rec_fixType :: string
  rec_description :: string
  rec_solution :: sim_solution

text \<open>
  The object literal \<open>recommendations\<close> has the six keys timeout, memory, permission,
  import, syntax and runtime. Reading any other key, \<open>other\<close> included, gives
  \<open>undefined\<close>, modelled as \<open>None\<close>.
\<close>

fun recommendations :: "category \<Rightarrow> recommendation option" where
  "recommendations Timeout = Some \<lparr> rec_shouldFix = True, rec_fixType = ''configuration'',
     rec_description = ''Function timeout issue detected'',
     rec_solution = SimUpdateTimeout 300 \<rparr>"
| "recommendations Memory = Some \<lparr> rec_shouldFix = True, rec_fixType = ''configuration'',
     rec_description = ''Memory allocation issue detected'',
     rec_solution = SimUpdateMemory 1024 \<rparr>"
| "recommendations Permission = Some \<lparr> rec_shouldFix = False, rec_fixType = ''iam'',
     rec_description = ''IAM permission issue detected'',
     rec_solution = SimIamUpdate \<rparr>"
| "recommendations Import = Some \<lparr> rec_shouldFix = True, rec_fixType = ''code'',
     rec_description = ''Module import/dependency issue detected'',
     rec_solution = SimDependencyFix \<rparr>"
| "recommendations Syntax = Some \<lparr> rec_shouldFix = True, rec_fixType = ''code'',
     rec_description = ''Syntax error detected'',
     rec_solution = SimSyntaxFix \<rparr>"
| "recommendations Runtime = Some \<lparr> rec_shouldFix = True, rec_fixType = ''code'',
     rec_description = ''Runtime error detected'',
     rec_solution = SimRuntimeFix \<rparr>"
| "recommendations Other = None"

datatype confidence = Low | Medium | High

text \<open>
  The returned object spreads the looked-up recommendation and adds three fields.
  Spreading \<open>undefined\<close> adds nothing, so \<open>sim_descriptor = None\<close> stands for a result
  without \<open>shouldFix\<close>, \<open>fixType\<close>, \<open>description\<close> and \<open>solution\<close>.
\<close>

record sim_analysis =
  sim_descriptor :: "recommendation option"
  sim_errorType :: category
  sim_errorCount :: nat
  sim_confidence :: confidence

definition simulateKnowledgeAnalysis :: "classification \<Rightarrow> sim_analysis" where
  "simulateKnowledgeAnalysis errorPatterns =
     (let recommendation =
            (case recommendations (mostCommon errorPatterns) of
               Some r \<Rightarrow> Some r
             | None \<Rightarrow> recommendations Other)
      in \<lparr> sim_descriptor = recommendation,
           sim_errorType = mostCommon errorPatterns,
           sim_errorCount = totalErrors errorPatterns,
           sim_confidence = (if totalErrors errorPatterns > 10 then High else Medium) \<rparr>)"

text \<open>
  The test \<open>fixRecommendation && fixRecommendation.shouldFix\<close> of \<open>monitorFunctions\<close>:
  a missing \<open>shouldFix\<close> is falsy.
\<close>

definition sim_shouldFix :: "sim_analysis \<Rightarrow> bool" where
  "sim_shouldFix a = (case sim_descriptor a of None \<Rightarrow> False | Some r \<Rightarrow> rec_shouldFix r)"

section \<open>Knowledge integration: \<open>AWSKnowledgeIntegration\<close>\<close>

text \<open>
  \<open>calculateConfidence\<close>. The source compares the floating-point quotient
  \<open>specificErrors / totalErrors\<close> with \<open>0.8\<close>; for counts below \<open>10^15\<close> that is the
  comparison of \<open>5 * specificErrors\<close> with \<open>4 * totalErrors\<close>.
\<close>

definition calculateConfidence :: "nat \<Rightarrow> nat \<Rightarrow> confidence" where
  "calculateConfidence total_errors specificErrors =
     (if total_errors < 3 then Low
      else if total_errors < 10 then Medium
      else if 5 * specificErrors > 4 * total_errors then High
      else Medium)"

definition autoFixableTypes :: "category list" where
  "autoFixableTypes = [Timeout, Memory, Import, Syntax]"

definition highConfidenceThreshold :: nat where
  "highConfidenceThreshold = 10"

definition shouldAutoFix :: "category \<Rightarrow> nat \<Rightarrow> bool" where
  "shouldAutoFix errorType total_errors =
     (errorType \<in> set autoFixableTypes \<and> total_errors \<ge> highConfidenceThreshold)"

text \<open>
  \<open>getFixPriority\<close>. \<open>priorities[errorType] || 5\<close> is 5 for \<open>other\<close>;
  \<open>Math.round(base * Math.min(total / 5, 2))\<close> is \<open>2 * base\<close> from 10 errors on and
  \<open>base * total / 5\<close> rounded to the nearest integer (a multiple of one fifth is
  never halfway between two integers).
\<close>

fun priorities :: "category \<Rightarrow> nat" where
  "priorities Syntax = 10"
| "priorities Import = 9"
| "priorities Permission = 8"
| "priorities Runtime = 7"
| "priorities Timeout = 6"
| "priorities Memory = 5"
| "priorities Other = 5"

definition getFixPriority :: "category \<Rightarrow> nat \<Rightarrow> nat" where
  "getFixPriority errorType total_errors =
     (let basePriority = priorities errorType in
      min (if total_errors \<ge> 10 then 2 * basePriority
           else (2 * basePriority * total_errors + 5) div 10) 10)"

text \<open>
  The analysis object, without its documentation, recommendation and code-fix texts.
\<close>

record knowledge_analysis =
  ka_errorType :: category
  ka_errorCount :: nat
  ka_confidence :: confidence
  ka_shouldFix :: bool
  ka_fixPriority :: nat

definition getFallbackRecommendation :: "category \<Rightarrow> nat \<Rightarrow> knowledge_analysis" where
  "getFallbackRecommendation errorType total_errors =
     \<lparr> ka_errorType = errorType, ka_errorCount = total_errors, ka_confidence = Low,
       ka_shouldFix = False, ka_fixPriority = 5 \<rparr>"

text \<open>
  \<open>analyzeErrors\<close>. The flag \<open>lookups_ok\<close> says whether the body of the \<open>try\<close> block
  ran without an exception; otherwise the \<open>catch\<close> block returns the fallback.
\<close>

definition analyzeErrors :: "bool \<Rightarrow> classification \<Rightarrow> knowledge_analysis" where
  "analyzeErrors lookups_ok errorPatterns =
     (let errorType = mostCommon errorPatterns;
          total_errors = totalErrors errorPatterns in
      if lookups_ok then
        \<lparr> ka_errorType = errorType,
          ka_errorCount = total_errors,
          ka_confidence = calculateConfidence total_errors (patterns_of errorPatterns errorType),
          ka_shouldFix = shouldAutoFix errorType total_errors,
          ka_fixPriority = getFixPriority errorType total_errors \<rparr>
      else getFallbackRecommendation errorType total_errors)"

section \<open>The Lambda control plane behind \<open>callLambdaMCP\<close>\<close>

text \<open>
  The fixer reaches the control plane only through \<open>callLambdaMCP\<close>, an HTTP call. The
  control plane is modelled as a store: per function name the configuration of the
  unpublished function, its code package, the number of the last published version and
  the version the PROD alias points at. A call either fails (the source then throws
  \<open>Lambda MCP <operation> failed\<close>) or succeeds and has its effect on the store. Which
  calls fail is given by the list \<open>failures\<close>, read one entry per call in the order the
  calls are made (\<open>True\<close>: this call fails); past its end every call succeeds.
\<close>

type_synonym version = nat

record function_configuration =
  Timeout_s :: int
  MemorySize :: int

record lambda_function =
  fn_configuration :: function_configuration
  fn_code :: string
  fn_last_version :: version
  fn_PROD :: version

record world =
  lambda_functions :: "string \<Rightarrow> lambda_function"
  failures :: "bool list"

datatype error =
    McpFailed string
  | UnknownFixType string
  | SolutionUndefined
  | FixVerificationFailed

definition callLambdaMCP ::
  "string \<Rightarrow> (world \<Rightarrow> 'a \<times> world) \<Rightarrow> world \<Rightarrow> (error + 'a) \<times> world" where
  "callLambdaMCP operation service w =
     (case failures w of
        [] \<Rightarrow> (case service w of (r, w') \<Rightarrow> (Inr r, w'))
      | fails # rest \<Rightarrow>
          if fails then (Inl (McpFailed operation), w\<lparr>failures := rest\<rparr>)
          else (case service (w\<lparr>failures := rest\<rparr>) of (r, w') \<Rightarrow> (Inr r, w')))"

definition update_function :: "string \<Rightarrow> (lambda_function \<Rightarrow> lambda_function) \<Rightarrow> world \<Rightarrow> world" where
  "update_function functionName f w =
     w\<lparr>lambda_functions := (lambda_functions w)(functionName := f (lambda_functions w functionName))\<rparr>"

definition getFunction_svc :: "string \<Rightarrow> world \<Rightarrow> (function_configuration \<times> string) \<times> world" where
  "getFunction_svc functionName w =
     ((fn_configuration (lambda_functions w functionName), fn_code (lambda_functions w functionName)), w)"

definition getAlias_svc :: "string \<Rightarrow> world \<Rightarrow> version \<times> world" where
  "getAlias_svc functionName w = (fn_PROD (lambda_functions w functionName), w)"

definition updateFunctionConfiguration_svc ::
  "string \<Rightarrow> (function_configuration \<Rightarrow> function_configuration) \<Rightarrow> world \<Rightarrow> unit \<times> world" where
  "updateFunctionConfiguration_svc functionName change w =
     ((), update_function functionName (\<lambda>fn. fn\<lparr>fn_configuration := change (fn_configuration fn)\<rparr>) w)"

definition updateFunctionCode_svc :: "string \<Rightarrow> string \<Rightarrow> world \<Rightarrow> unit \<times> world" where
  "updateFunctionCode_svc functionName zipFile w =
     ((), update_function functionName (\<lambda>fn. fn\<lparr>fn_code := zipFile\<rparr>) w)"

definition publishVersion_svc :: "string \<Rightarrow> world \<Rightarrow> version \<times> world" where
  "publishVersion_svc functionName w =
     (let v = fn_last_version (lambda_functions w functionName) + 1
      in (v, update_function functionName (\<lambda>fn. fn\<lparr>fn_last_version := v\<rparr>) w))"

definition updateAlias_svc :: "string \<Rightarrow> version \<Rightarrow> world \<Rightarrow> unit \<times> world" where
  "updateAlias_svc functionName v w =
     ((), update_function functionName (\<lambda>fn. fn\<lparr>fn_PROD := v\<rparr>) w)"

text \<open>Sequencing of awaited calls: a thrown error skips the rest of the \<open>try\<close> body.\<close>

definition await ::
  "(world \<Rightarrow> (error + 'a) \<times> world) \<Rightarrow> ('a \<Rightarrow> world \<Rightarrow> (error + 'b) \<times> world) \<Rightarrow>
   world \<Rightarrow> (error + 'b) \<times> world" where
  "await m k w = (case m w of (Inl e, w') \<Rightarrow> (Inl e, w') | (Inr x, w') \<Rightarrow> k x w')"

definition return_value :: "'a \<Rightarrow> world \<Rightarrow> (error + 'a) \<times> world" where
  "return_value x w = (Inr x, w)"

definition throw :: "error \<Rightarrow> world \<Rightarrow> (error + 'a) \<times> world" where
  "throw e w = (Inl e, w)"

section \<open>Attempt state machine: \<open>LambdaAutoFixer\<close>\<close>

text \<open>The snapshot \<open>getCurrentFunctionState\<close> returns (its time stamp is left out).\<close>

record function_state =
  currentVersion :: version
  configuration :: function_configuration

definition getCurrentFunctionState :: "string \<Rightarrow> world \<Rightarrow> (error + function_state) \<times> world" where
  "getCurrentFunctionState functionName =
     await (callLambdaMCP ''getFunction'' (getFunction_svc functionName)) (\<lambda>functionInfo.
     await (callLambdaMCP ''getAlias'' (getAlias_svc functionName)) (\<lambda>aliasInfo.
     return_value \<lparr> currentVersion = aliasInfo, configuration = fst functionInfo \<rparr>))"

text \<open>
  The \<open>solution\<close> of a recommendation, by its \<open>type\<close> tag and the parameter
  \<open>executeFix\<close> passes on; \<open>OtherSolution\<close> is any other tag.
\<close>

datatype solution =
    UpdateTimeout int
  | UpdateMemory int
  | UpdateDependencies "string list"
  | FixSyntax "nat list"
  | AddErrorHandling "string list"
  | OtherSolution string

text \<open>
  A recommendation as \<open>applyFix\<close> reads it; \<open>None\<close> is a field the object does not
  have. Without a \<open>solution\<close>, reading \<open>solution.type\<close> throws a TypeError.
\<close>

record fixRecommendation =
  fixType :: "string option"
  solution :: "solution option"

text \<open>What a fix returns: its \<open>type\<close> with the new value, and the published version.\<close>

datatype fix_type = TimeoutFix int | MemoryFix int | DependenciesFix | SyntaxFix | ErrorHandlingFix

record fix_outcome =
  fo_type :: fix_type
  fo_version :: version

definition publish_and_point ::
  "string \<Rightarrow> fix_type \<Rightarrow> world \<Rightarrow> (error + fix_outcome) \<times> world" where
  "publish_and_point functionName ty =
     await (callLambdaMCP ''publishVersion'' (publishVersion_svc functionName)) (\<lambda>version.
     await (callLambdaMCP ''updateAlias'' (updateAlias_svc functionName version)) (\<lambda>aliasUpdate.
     return_value \<lparr> fo_type = ty, fo_version = version \<rparr>))"

definition updateFunctionTimeout :: "string \<Rightarrow> int \<Rightarrow> world \<Rightarrow> (error + fix_outcome) \<times> world" where
  "updateFunctionTimeout functionName newTimeout =
     await (callLambdaMCP ''updateFunctionConfiguration''
        (updateFunctionConfiguration_svc functionName (\<lambda>c. c\<lparr>Timeout_s := newTimeout\<rparr>)))
       (\<lambda>configUpdate. publish_and_point functionName (TimeoutFix newTimeout))"

definition updateFunctionMemory :: "string \<Rightarrow> int \<Rightarrow> world \<Rightarrow> (error + fix_outcome) \<times> world" where
  "updateFunctionMemory functionName newMemory =
     await (callLambdaMCP ''updateFunctionConfiguration''
        (updateFunctionConfiguration_svc functionName (\<lambda>c. c\<lparr>MemorySize := newMemory\<rparr>)))
       (\<lambda>configUpdate. publish_and_point functionName (MemoryFix newMemory))"

text \<open>
  The three code fixes read the function, build a package locally (the source returns a
  fixed mock buffer), upload it, publish and move the alias.
\<close>

definition update_code ::
  "string \<Rightarrow> string \<Rightarrow> fix_type \<Rightarrow> world \<Rightarrow> (error + fix_outcome) \<times> world" where
  "update_code functionName package ty =
     await (callLambdaMCP ''getFunction'' (getFunction_svc functionName)) (\<lambda>currentCode.
     await (callLambdaMCP ''updateFunctionCode'' (updateFunctionCode_svc functionName package))
       (\<lambda>codeUpdate. publish_and_point functionName ty))"

definition updateFunctionDependencies ::
  "string \<Rightarrow> string list \<Rightarrow> world \<Rightarrow> (error + fix_outcome) \<times> world" where
  "updateFunctionDependencies functionName missingPackages =
     update_code functionName ''mock-deployment-package'' DependenciesFix"

definition fixFunctionSyntax ::
  "string \<Rightarrow> nat list \<Rightarrow> world \<Rightarrow> (error + fix_outcome) \<times> world" where
  "fixFunctionSyntax functionName errorLocations =
     update_code functionName ''fixed-code-package'' SyntaxFix"

definition addErrorHandling ::
  "string \<Rightarrow> string list \<Rightarrow> world \<Rightarrow> (error + fix_outcome) \<times> world" where
  "addErrorHandling functionName errorProneAreas =
     update_code functionName ''error-handling-improved-code'' ErrorHandlingFix"

definition executeFix :: "string \<Rightarrow> fixRecommendation \<Rightarrow> world \<Rightarrow> (error + fix_outcome) \<times> world" where
  "executeFix functionName fixRec =
     (case solution fixRec of
        None \<Rightarrow> throw SolutionUndefined
      | Some (UpdateTimeout newTimeout) \<Rightarrow> updateFunctionTimeout functionName newTimeout
      | Some (UpdateMemory newMemory) \<Rightarrow> updateFunctionMemory functionName newMemory
      | Some (UpdateDependencies suggestedPackages) \<Rightarrow>
          updateFunctionDependencies functionName suggestedPackages
      | Some (FixSyntax errorLocations) \<Rightarrow> fixFunctionSyntax functionName errorLocations
      | Some (AddErrorHandling areas) \<Rightarrow> addErrorHandling functionName areas
      | Some (OtherSolution ty) \<Rightarrow> throw (UnknownFixType ty))"

text \<open>
  \<open>verifyFix\<close> (the five-second wait is not modelled). A failing read is caught and
  reported as a verification without success.
\<close>

record verification =
  v_success :: bool
  v_functionVersion :: "version option"
  v_error :: "error option"

definition verifyFix :: "string \<Rightarrow> fix_outcome \<Rightarrow> world \<Rightarrow> verification \<times> world" where
  "verifyFix functionName fixResult w =
     (case await (callLambdaMCP ''getFunction'' (getFunction_svc functionName)) (\<lambda>updatedFunction.
           await (callLambdaMCP ''getAlias'' (getAlias_svc functionName)) (\<lambda>prodAlias.
           return_value (updatedFunction, prodAlias))) w of
        (Inl e, w') \<Rightarrow>
          (\<lparr> v_success = False, v_functionVersion = None, v_error = Some e \<rparr>, w')
      | (Inr (updatedFunction, prodAlias), w') \<Rightarrow>
          (\<lparr> v_success =
                (case fo_type fixResult of
                   TimeoutFix newTimeout \<Rightarrow> Timeout_s (fst updatedFunction) = newTimeout
                 | MemoryFix newMemory \<Rightarrow> MemorySize (fst updatedFunction) = newMemory
                 | DependenciesFix \<Rightarrow> prodAlias = fo_version fixResult
                 | SyntaxFix \<Rightarrow> prodAlias = fo_version fixResult
                 | ErrorHandlingFix \<Rightarrow> prodAlias = fo_version fixResult),
              v_functionVersion = Some prodAlias, v_error = None \<rparr>, w'))"

text \<open>\<open>rollbackFix\<close> returns the version it rolled back to, or rethrows.\<close>

definition rollbackFix :: "string \<Rightarrow> function_state \<Rightarrow> world \<Rightarrow> (error + version) \<times> world" where
  "rollbackFix functionName previousState =
     await (callLambdaMCP ''updateAlias''
        (updateAlias_svc functionName (currentVersion previousState)))
       (\<lambda>rollbackResult. return_value (currentVersion previousState))"

text \<open>
  The object \<open>applyFix\<close> returns. A field the source leaves out is \<open>None\<close>; \<open>rolledBack\<close>
  is only ever tested for truth, so its absence is \<open>False\<close>.
\<close>

record fix_result =
  fx_success :: bool
  fx_functionName :: string
  fx_fixType :: "string option"
  fx_version :: "version option"
  fx_error :: "error option"
  fx_rolledBack :: bool

type_synonym deploymentHistory = "string \<rightharpoonup> function_state"

text \<open>
  The \<open>catch\<close> block of \<open>applyFix\<close>: it rolls back to the state stored in the deployment
  history, if there is one, logs and drops an error of that rollback, and returns a
  result with \<open>rolledBack: true\<close> in every case.
\<close>

definition applyFix_catch ::
  "string \<Rightarrow> error \<Rightarrow> deploymentHistory \<Rightarrow> world \<Rightarrow> fix_result \<times> deploymentHistory \<times> world" where
  "applyFix_catch functionName e history w =
     (\<lparr> fx_success = False, fx_functionName = functionName, fx_fixType = None,
        fx_version = None, fx_error = Some e, fx_rolledBack = True \<rparr>,
      history,
      (case history functionName of
         None \<Rightarrow> w
       | Some currentState \<Rightarrow> snd (rollbackFix functionName currentState w)))"

definition applyFix ::
  "string \<Rightarrow> fixRecommendation \<Rightarrow> deploymentHistory \<Rightarrow> world \<Rightarrow>
   fix_result \<times> deploymentHistory \<times> world" where
  "applyFix functionName fixRec history w =
     (case getCurrentFunctionState functionName w of
        (Inl e, w1) \<Rightarrow> applyFix_catch functionName e history w1
      | (Inr currentState, w1) \<Rightarrow>
          (let history1 = history(functionName \<mapsto> currentState) in
           case executeFix functionName fixRec w1 of
             (Inl e, w2) \<Rightarrow> applyFix_catch functionName e history1 w2
           | (Inr fixResult, w2) \<Rightarrow>
               (case verifyFix functionName fixResult w2 of
                  (verification, w3) \<Rightarrow>
                    if v_success verification then
                      (\<lparr> fx_success = True, fx_functionName = functionName,
                         fx_fixType = fixType fixRec,
                         fx_version = Some (fo_version fixResult), fx_error = None,
                         fx_rolledBack = False \<rparr>, history1, w3)
                    else
                      (case rollbackFix functionName currentState w3 of
                         (Inl e, w4) \<Rightarrow> applyFix_catch functionName e history1 w4
                       | (Inr rolledBackTo, w4) \<Rightarrow>
                           (\<lparr> fx_success = False, fx_functionName = functionName,
                              fx_fixType = None, fx_version = None,
                              fx_error = Some FixVerificationFailed,
                              fx_rolledBack = True \<rparr>, history1, w4)))))"

section \<open>Scheduler: \<open>LambdaErrorOrchestrator\<close>\<close>

record config =
  maxConcurrentFixes :: int
  fixCooldown :: int
  enableAutoFix :: bool
  enableRollback :: bool

text \<open>An entry of the \<open>fixAttempts\<close> map; times are milliseconds as \<open>Date.now()\<close> gives them.\<close>

record fix_attempt =
  attempts :: nat
  consecutiveFailures :: nat
  timestamp :: int

type_synonym fixAttempts = "string \<rightharpoonup> fix_attempt"

text \<open>\<open>shouldAttemptFix\<close> returns its verdict and the map, from which it may delete the entry.\<close>

definition shouldAttemptFix ::
  "config \<Rightarrow> int \<Rightarrow> fixAttempts \<Rightarrow> string \<Rightarrow> bool \<times> fixAttempts" where
  "shouldAttemptFix cfg now fa functionName =
     (case fa functionName of
        None \<Rightarrow> (True, fa)
      | Some lastAttempt \<Rightarrow>
          (let timeSinceLastAttempt = now - timestamp lastAttempt in
           if timeSinceLastAttempt < fixCooldown cfg then (False, fa)
           else if timeSinceLastAttempt > fixCooldown cfg * 2 then
             (True, fa(functionName := None))
           else if consecutiveFailures lastAttempt \<ge> 3 then (False, fa)
           else (True, fa)))"

definition recordFixAttempt :: "int \<Rightarrow> fixAttempts \<Rightarrow> string \<Rightarrow> fixAttempts" where
  "recordFixAttempt now fa functionName =
     (case fa functionName of
        None \<Rightarrow>
          fa(functionName \<mapsto> \<lparr> attempts = 0 + 1, consecutiveFailures = 0, timestamp = now \<rparr>)
      | Some existing \<Rightarrow>
          fa(functionName \<mapsto> \<lparr> attempts = attempts existing + 1,
               consecutiveFailures = consecutiveFailures existing, timestamp = now \<rparr>))"

definition recordFixResult :: "fixAttempts \<Rightarrow> string \<Rightarrow> bool \<Rightarrow> fixAttempts" where
  "recordFixResult fa functionName success =
     (case fa functionName of
        None \<Rightarrow> fa
      | Some existing \<Rightarrow>
          fa(functionName \<mapsto>
               (if success then existing\<lparr>consecutiveFailures := 0\<rparr>
                else existing\<lparr>consecutiveFailures := consecutiveFailures existing + 1\<rparr>)))"

text \<open>
  An element of \<open>analysisResults\<close> that reached \<open>applyFixes\<close>, and what
  \<open>applyFixToFunction\<close> returns for it: the fixer's result, or, when the call threw,
  the object of the \<open>catch\<close> block.
\<close>

record analysis_result =
  ar_functionName :: string
  ar_knowledgeAnalysis :: knowledge_analysis
  ar_shouldFix :: bool

datatype attempt_report =
    Report string category fix_result
  | Caught string category error

text \<open>
  \<open>applyFixToFunction\<close>. The fixer (\<open>this.fixer.applyFix\<close>) is a parameter acting on its
  own state \<open>'s\<close>; \<open>Inl\<close> is a call that threw. The attempt is recorded before the
  fixer runs, and nothing is recorded after it: the body does not call
  \<open>recordFixResult\<close>, and no other function of the repository does.
\<close>

definition applyFixToFunction ::
  "(string \<Rightarrow> knowledge_analysis \<Rightarrow> 's \<Rightarrow> (error + fix_result) \<times> 's) \<Rightarrow> int \<Rightarrow>
   analysis_result \<Rightarrow> fixAttempts \<Rightarrow> 's \<Rightarrow> attempt_report \<times> fixAttempts \<times> 's" where
  "applyFixToFunction fixer now analysisResult fa s =
     (let functionName = ar_functionName analysisResult;
          knowledgeAnalysis = ar_knowledgeAnalysis analysisResult;
          fa1 = recordFixAttempt now fa functionName in
      case fixer functionName knowledgeAnalysis s of
        (Inr fixResult, s') \<Rightarrow>
          (Report functionName (ka_errorType knowledgeAnalysis) fixResult, fa1, s')
      | (Inl e, s') \<Rightarrow>
          (Caught functionName (ka_errorType knowledgeAnalysis) e, fa1, s'))"

text \<open>
  \<open>Array.prototype.slice(start, end)\<close>: a negative index counts from the end, both
  indices are clamped to the array, and an empty range gives the empty array.
\<close>

definition js_slice :: "'a list \<Rightarrow> int \<Rightarrow> int \<Rightarrow> 'a list" where
  "js_slice xs start stop =
     (let len = int (length xs);
          k = (if start < 0 then max (len + start) 0 else min start len);
          final = (if stop < 0 then max (len + stop) 0 else min stop len)
      in take (nat (final - k)) (drop (nat k) xs))"

text \<open>
  \<open>chunkArray\<close>: the loop \<open>for (let i = 0; i < array.length; i += chunkSize)\<close>. The
  chunk size comes from \<open>parseInt(...) || 3\<close>, an integer other than 0 that may be
  negative; the loop then never ends on a non-empty array, which is the value \<open>None\<close>.
\<close>

partial_function (option) chunkArray_loop ::
  "'a list \<Rightarrow> int \<Rightarrow> int \<Rightarrow> 'a list list \<Rightarrow> 'a list list option" where
  "chunkArray_loop array chunkSize i chunks =
     (if i < int (length array)
      then chunkArray_loop array chunkSize (i + chunkSize)
             (chunks @ [js_slice array i (i + chunkSize)])
      else Some chunks)"

declare chunkArray_loop.simps [code]

definition chunkArray :: "'a list \<Rightarrow> int \<Rightarrow> 'a list list option" where
  "chunkArray array chunkSize = chunkArray_loop array chunkSize 0 []"

text \<open>
  The batch loop of \<open>applyFixes\<close>, as the order of its events. In each iteration
  \<open>batch.map(async ...)\<close> starts the attempt of every element of the batch, in order,
  and \<open>await Promise.allSettled(batchPromises)\<close> resumes the loop only when every one of
  these promises is settled, fulfilled or rejected. The code does not fix the order in
  which the attempts of a batch settle: it is the parameter \<open>settle_order\<close>, which
  rearranges the batch. An event carries the number of its batch.
\<close>

datatype 'a event = Started nat 'a | Settled nat 'a

fun run_batches :: "('a list \<Rightarrow> 'a list) \<Rightarrow> nat \<Rightarrow> 'a list list \<Rightarrow> 'a event list" where
  "run_batches settle_order k [] = []"
| "run_batches settle_order k (batch # rest) =
     map (Started k) batch @ map (Settled k) (settle_order batch)
       @ run_batches settle_order (Suc k) rest"

definition applyFixes_events ::
  "(analysis_result list \<Rightarrow> analysis_result list) \<Rightarrow> config \<Rightarrow> analysis_result list \<Rightarrow>
   analysis_result event list option" where
  "applyFixes_events settle_order cfg analysisResults =
     (let functionsToFix = filter ar_shouldFix analysisResults in
      if functionsToFix = [] then Some []
      else (case chunkArray functionsToFix (maxConcurrentFixes cfg) of
              None \<Rightarrow> None
            | Some fixBatches \<Rightarrow> Some (run_batches settle_order 0 fixBatches)))"

text \<open>
  The orchestrator hands the analysis object of \<open>analyzeErrors\<close> to \<open>applyFix\<close>. That
  object has neither a \<open>fixType\<close> nor a \<open>solution\<close> field. \<open>applyFix\<close> catches every
  error of its body, so the call itself does not throw.
\<close>

definition as_fixRecommendation :: "knowledge_analysis \<Rightarrow> fixRecommendation" where
  "as_fixRecommendation knowledgeAnalysis = \<lparr> fixType = None, solution = None \<rparr>"

definition fixer_applyFix ::
  "string \<Rightarrow> knowledge_analysis \<Rightarrow> deploymentHistory \<times> world \<Rightarrow>
   (error + fix_result) \<times> deploymentHistory \<times> world" where
  "fixer_applyFix functionName knowledgeAnalysis s =
     (case applyFix functionName (as_fixRecommendation knowledgeAnalysis) (fst s) (snd s) of
        (fixResult, s') \<Rightarrow> (Inr fixResult, s'))"

section \<open>Scenarios\<close>

text \<open>
  A control plane on which every function has timeout 3 s, 128 MB, one published
  version, and PROD pointing at version 1; \<open>fs\<close> says which calls fail.
\<close>

definition world_v1 :: "bool list \<Rightarrow> world" where
  "world_v1 fs =
     \<lparr> lambda_functions =
         (\<lambda>_. \<lparr> fn_configuration = \<lparr> Timeout_s = 3, MemorySize = 128 \<rparr>,
                fn_code = ''original-package'', fn_last_version = 1, fn_PROD = 1 \<rparr>),
       failures = fs \<rparr>"

definition timeout_fix :: fixRecommendation where
  "timeout_fix = \<lparr> fixType = Some ''configuration'', solution = Some (UpdateTimeout 300) \<rparr>"

definition dependency_fix :: fixRecommendation where
  "dependency_fix = \<lparr> fixType = Some ''code'', solution = Some (UpdateDependencies [''lodash'']) \<rparr>"

text \<open>Cooldown of five minutes, at most two concurrent fixes.\<close>

definition config_5min :: config where
  "config_5min = \<lparr> maxConcurrentFixes = 2, fixCooldown = 300000,
     enableAutoFix = True, enableRollback = True \<rparr>"

text \<open>Resource f3 was last attempted at time 0 and has three consecutive failures.\<close>

definition attempts_f3 :: fixAttempts where
  "attempts_f3 = [''f3'' \<mapsto> \<lparr> attempts = 3, consecutiveFailures = 3, timestamp = 0 \<rparr>]"

text \<open>The analysis of twelve timeout errors of resource f2, admitted for a fix.\<close>

definition analysis_f2 :: analysis_result where
  "analysis_f2 =
     \<lparr> ar_functionName = ''f2'',
       ar_knowledgeAnalysis = analyzeErrors True
         \<lparr> patterns_of = (\<lambda>c. if c = Timeout then 12 else 0), totalErrors = 12,
           mostCommon = Timeout \<rparr>,
       ar_shouldFix = True \<rparr>"

text \<open>Five resources admitted for a fix, f1 to f5.\<close>

definition eligible :: "string \<Rightarrow> analysis_result" where
  "eligible functionName = analysis_f2\<lparr>ar_functionName := functionName\<rparr>"

definition five_eligible :: "analysis_result list" where
  "five_eligible = map eligible [''f1'', ''f2'', ''f3'', ''f4'', ''f5'']"

section \<open>Properties of the classifier\<close>

lemma count_sum_increment: "count_sum (increment p c) = count_sum p + 1"
  by (cases c) (simp_all add: count_sum_def increment_def categories_def)

lemma count_sum_forEach_log: "count_sum (forEach_log p logs) = count_sum p + length logs"
  by (induction logs arbitrary: p) (simp_all add: count_sum_increment)

lemma count_sum_initial: "count_sum initial_patterns = 0"
  by (simp add: count_sum_def initial_patterns_def categories_def)

text \<open>
  C6. For every sequence of log samples the seven per-category counts of the result sum
  to the number of samples, which is also the reported total.
\<close>

theorem C6_counts_sum_to_length:
  "count_sum (patterns_of (extractErrorPatterns errorLogs)) = length errorLogs \<and>
   totalErrors (extractErrorPatterns errorLogs) = length errorLogs"
  by (simp add: extractErrorPatterns_def Let_def count_sum_forEach_log count_sum_initial)

text \<open>
  C7. On the empty sequence the classifier returns a result (the model has no failing
  branch there): every per-category count is zero, the total is zero and the dominant
  category is "other".
\<close>

theorem C7_empty_input:
  "(\<forall>c. patterns_of (extractErrorPatterns []) c = 0) \<and>
   totalErrors (extractErrorPatterns []) = 0 \<and>
   mostCommon (extractErrorPatterns []) = Other"
  by (simp add: extractErrorPatterns_def initial_patterns_def reduce_entries_def
      entries_def categories_def pick_def)

lemma reduce_entries_unfold:
  "reduce_entries p =
     pick p (pick p (pick p (pick p (pick p (pick p
       (Timeout, p Timeout) (Memory, p Memory)) (Permission, p Permission))
       (Import, p Import)) (Syntax, p Syntax)) (Runtime, p Runtime)) (Other, p Other)"
  by (simp add: reduce_entries_def entries_def categories_def)

lemma fst_pick: "fst (pick p a b) = (if p (fst a) > p (fst b) then fst a else fst b)"
  by (simp add: pick_def)

lemma reduce_entries_max: "p c \<le> p (fst (reduce_entries p))"
  unfolding reduce_entries_unfold fst_pick
  by (cases c) simp_all

lemma reduce_entries_tie:
  "p c = p (fst (reduce_entries p)) \<Longrightarrow> declared_at c \<le> declared_at (fst (reduce_entries p))"
  unfolding reduce_entries_unfold fst_pick
  by (cases c) (simp_all add: declared_at_def categories_def split: if_splits)

lemma mostCommon_extract:
  "mostCommon (extractErrorPatterns logs) = fst (reduce_entries (patterns_of (extractErrorPatterns logs)))"
  by (simp add: extractErrorPatterns_def Let_def)

text \<open>
  C5 (as the code has it). The dominant category has the highest count, and among the
  categories that tie for the highest count it is the one declared last: the callback
  keeps the accumulator only when its count is strictly greater.
\<close>

theorem C5_dominant_is_last_maximum:
  "(\<forall>c. patterns_of (extractErrorPatterns logs) c
        \<le> patterns_of (extractErrorPatterns logs) (mostCommon (extractErrorPatterns logs))) \<and>
   (\<forall>c. patterns_of (extractErrorPatterns logs) c
          = patterns_of (extractErrorPatterns logs) (mostCommon (extractErrorPatterns logs)) \<longrightarrow>
        declared_at c \<le> declared_at (mostCommon (extractErrorPatterns logs)))"
  unfolding mostCommon_extract
  using reduce_entries_max reduce_entries_tie by blast

lemma two_logs_counts:
  "patterns_of (extractErrorPatterns
      [''Task timed out after 3.00 seconds'', ''Runtime exited: out of memory'']) =
   (\<lambda>c. if c = Timeout \<or> c = Memory then 1 else 0)"
  by (rule ext)
    (simp add: extractErrorPatterns_def Let_def initial_patterns_def increment_def
      classify_def toLowerCase_def toLowerCase_char_def)

theorem C5_dominant_is_last_maximum_witness:
  "patterns_of (extractErrorPatterns
      [''Task timed out after 3.00 seconds'', ''Runtime exited: out of memory'']) Timeout
     = patterns_of (extractErrorPatterns
      [''Task timed out after 3.00 seconds'', ''Runtime exited: out of memory''])
        (mostCommon (extractErrorPatterns
          [''Task timed out after 3.00 seconds'', ''Runtime exited: out of memory''])) \<and>
   declared_at Timeout \<le> declared_at (mostCommon (extractErrorPatterns
      [''Task timed out after 3.00 seconds'', ''Runtime exited: out of memory'']))"
proof -
  let ?r = "extractErrorPatterns
      [''Task timed out after 3.00 seconds'', ''Runtime exited: out of memory'']"
  have m: "mostCommon ?r = Memory"
    unfolding mostCommon_extract two_logs_counts
    by (simp add: reduce_entries_unfold fst_pick)
  have tie: "patterns_of ?r Timeout = patterns_of ?r (mostCommon ?r)"
    unfolding m two_logs_counts by simp
  from C5_dominant_is_last_maximum [of "[''Task timed out after 3.00 seconds'', ''Runtime exited: out of memory'']"]
  have "patterns_of ?r Timeout = patterns_of ?r (mostCommon ?r) \<longrightarrow>
        declared_at Timeout \<le> declared_at (mostCommon ?r)"
    by blast
  with tie show ?thesis by blast
qed

text \<open>
  One timeout sample and one memory sample tie at count 1; the reported dominant
  category is memory, which is declared after timeout.
\<close>

theorem C5_first_declared_counterexample:
  "patterns_of (extractErrorPatterns
      [''Task timed out after 3.00 seconds'', ''Runtime exited: out of memory'']) Timeout = 1 \<and>
   patterns_of (extractErrorPatterns
      [''Task timed out after 3.00 seconds'', ''Runtime exited: out of memory'']) Memory = 1 \<and>
   patterns_of (extractErrorPatterns
      [''Task timed out after 3.00 seconds'', ''Runtime exited: out of memory'']) Permission = 0 \<and>
   patterns_of (extractErrorPatterns
      [''Task timed out after 3.00 seconds'', ''Runtime exited: out of memory'']) Import = 0 \<and>
   patterns_of (extractErrorPatterns
      [''Task timed out after 3.00 seconds'', ''Runtime exited: out of memory'']) Syntax = 0 \<and>
   patterns_of (extractErrorPatterns
      [''Task timed out after 3.00 seconds'', ''Runtime exited: out of memory'']) Runtime = 0 \<and>
   patterns_of (extractErrorPatterns
      [''Task timed out after 3.00 seconds'', ''Runtime exited: out of memory'']) Other = 0 \<and>
   mostCommon (extractErrorPatterns
      [''Task timed out after 3.00 seconds'', ''Runtime exited: out of memory'']) = Memory \<and>
   declared_at Timeout < declared_at Memory"
proof -
  let ?r = "extractErrorPatterns
      [''Task timed out after 3.00 seconds'', ''Runtime exited: out of memory'']"
  have m: "mostCommon ?r = Memory"
    unfolding mostCommon_extract two_logs_counts
    by (simp add: reduce_entries_unfold fst_pick)
  have d: "declared_at Timeout < declared_at Memory"
    by (simp add: declared_at_def categories_def)
  show ?thesis
    unfolding m using d by (simp add: two_logs_counts)
qed

section \<open>Properties of the remediation policy\<close>

text \<open>
  C10. A fix is recommended for automatic application only when the dominant category
  is one of timeout, memory, import, syntax and the total error count is at least 10:
  on the path without an exception \<open>shouldFix\<close> is exactly that condition, and in either
  path a total below 10 or a dominant category permission, runtime or other gives
  \<open>shouldFix = False\<close>, whatever the confidence and the priority are.
\<close>

theorem C10_auto_fix_gate:
  "(ka_shouldFix (analyzeErrors ok ep) \<longrightarrow>
      mostCommon ep \<in> {Timeout, Memory, Import, Syntax} \<and> 10 \<le> totalErrors ep) \<and>
   (totalErrors ep < 10 \<or> mostCommon ep \<in> {Permission, Runtime, Other} \<longrightarrow>
      \<not> ka_shouldFix (analyzeErrors ok ep)) \<and>
   ka_shouldFix (analyzeErrors True ep) =
      (mostCommon ep \<in> {Timeout, Memory, Import, Syntax} \<and> 10 \<le> totalErrors ep)"
  by (auto simp: analyzeErrors_def Let_def shouldAutoFix_def autoFixableTypes_def
      highConfidenceThreshold_def getFallbackRecommendation_def)

theorem C10_auto_fix_gate_witness:
  "ka_shouldFix (analyzeErrors True
      \<lparr> patterns_of = (\<lambda>c. if c = Timeout then 12 else 0), totalErrors = 12,
        mostCommon = Timeout \<rparr>) \<and>
   \<not> ka_shouldFix (analyzeErrors True
      \<lparr> patterns_of = (\<lambda>c. if c = Timeout then 9 else 0), totalErrors = 9,
        mostCommon = Timeout \<rparr>) \<and>
   \<not> ka_shouldFix (analyzeErrors True
      \<lparr> patterns_of = (\<lambda>c. if c = Runtime then 12 else 0), totalErrors = 12,
        mostCommon = Runtime \<rparr>)"
  using
    C10_auto_fix_gate [of True "\<lparr> patterns_of = (\<lambda>c. if c = Timeout then 12 else 0),
      totalErrors = 12, mostCommon = Timeout \<rparr>"]
    C10_auto_fix_gate [of True "\<lparr> patterns_of = (\<lambda>c. if c = Timeout then 9 else 0),
      totalErrors = 9, mostCommon = Timeout \<rparr>"]
    C10_auto_fix_gate [of True "\<lparr> patterns_of = (\<lambda>c. if c = Runtime then 12 else 0),
      totalErrors = 12, mostCommon = Runtime \<rparr>"]
  by simp

text \<open>
  C8 (what the code does for "other"). One unmatched log line makes "other" the dominant
  category. The table has no entry for it, and the fallback \<open>recommendations.other\<close> reads
  a key that does not exist: the analysis carries no descriptor. Its \<open>shouldFix\<close> is
  then missing, so it is not recommended for a fix, and \<open>shouldAutoFix\<close> rejects "other"
  as well.
\<close>

theorem C8_other_has_no_descriptor:
  "mostCommon (extractErrorPatterns [''ERROR something odd'']) = Other \<and>
   recommendations Other = None \<and>
   sim_descriptor (simulateKnowledgeAnalysis (extractErrorPatterns [''ERROR something odd''])) = None \<and>
   \<not> sim_shouldFix (simulateKnowledgeAnalysis (extractErrorPatterns [''ERROR something odd''])) \<and>
   \<not> shouldAutoFix Other 1"
proof -
  have c: "classify ''ERROR something odd'' = Other"
    by (simp add: classify_def toLowerCase_def toLowerCase_char_def)
  have m: "mostCommon (extractErrorPatterns [''ERROR something odd'']) = Other"
    by (simp add: extractErrorPatterns_def Let_def c reduce_entries_unfold fst_pick
        increment_def initial_patterns_def)
  show ?thesis
    by (simp add: m simulateKnowledgeAnalysis_def sim_shouldFix_def shouldAutoFix_def
        autoFixableTypes_def)
qed

section \<open>Properties of the scheduler's bookkeeping\<close>

text \<open>
  C4. A resource whose entry has three or more consecutive failures is not admitted
  while the time since its last attempt is at most twice the cooldown, whether or not
  the cooldown itself has elapsed; once that time exceeds twice the cooldown the entry
  is deleted and the resource is admitted. (The second part needs the first test of the
  function, elapsed < cooldown, to be false: so for a cooldown that is not negative, or
  a clock that has not gone back.)
\<close>

theorem C4_circuit_breaker:
  "fa f = Some e \<Longrightarrow> 3 \<le> consecutiveFailures e \<Longrightarrow>
   (now - timestamp e \<le> 2 * fixCooldown cfg \<longrightarrow>
      shouldAttemptFix cfg now fa f = (False, fa)) \<and>
   (now - timestamp e > 2 * fixCooldown cfg \<and> (0 \<le> fixCooldown cfg \<or> timestamp e \<le> now) \<longrightarrow>
      shouldAttemptFix cfg now fa f = (True, fa(f := None)))"
  by (auto simp: shouldAttemptFix_def Let_def)

theorem C4_circuit_breaker_witness:
  "shouldAttemptFix config_5min 60000 attempts_f3 ''f3'' = (False, attempts_f3) \<and>
   shouldAttemptFix config_5min 400000 attempts_f3 ''f3'' = (False, attempts_f3) \<and>
   shouldAttemptFix config_5min 600001 attempts_f3 ''f3'' = (True, attempts_f3(''f3'' := None))"
proof -
  let ?e = "\<lparr> attempts = 3, consecutiveFailures = 3, timestamp = 0 \<rparr>"
  have e: "attempts_f3 ''f3'' = Some ?e" by (simp add: attempts_f3_def)
  have c: "3 \<le> consecutiveFailures ?e" by simp
  show ?thesis
    using
      C4_circuit_breaker [where fa = attempts_f3 and f = "''f3''" and e = ?e
        and now = 60000 and cfg = config_5min, OF e c]
      C4_circuit_breaker [where fa = attempts_f3 and f = "''f3''" and e = ?e
        and now = 400000 and cfg = config_5min, OF e c]
      C4_circuit_breaker [where fa = attempts_f3 and f = "''f3''" and e = ?e
        and now = 600001 and cfg = config_5min, OF e c]
    by (simp add: config_5min_def)
qed

text \<open>\<open>recordFixResult\<close> itself resets the count on success and adds one on failure.\<close>

lemma recordFixResult_counts:
  "fa f = Some e \<Longrightarrow>
   map_option consecutiveFailures (recordFixResult fa f success f) =
     Some (if success then 0 else consecutiveFailures e + 1)"
  by (simp add: recordFixResult_def)

lemmas fixer_defs = applyFix_def applyFix_catch_def getCurrentFunctionState_def executeFix_def
  updateFunctionTimeout_def updateFunctionMemory_def update_code_def
  updateFunctionDependencies_def fixFunctionSyntax_def addErrorHandling_def
  publish_and_point_def verifyFix_def rollbackFix_def await_def return_value_def throw_def
  callLambdaMCP_def update_function_def getFunction_svc_def getAlias_svc_def
  updateFunctionConfiguration_svc_def updateFunctionCode_svc_def publishVersion_svc_def
  updateAlias_svc_def

text \<open>
  C3 (what the code does). The attempt for f2 fails and is reported as rolled back, and
  the entry written for f2 has \<open>consecutiveFailures = 0\<close>, not 1. In general an attempt
  leaves the count of its resource as it was (0 for a new entry), whatever the fixer
  returns: \<open>applyFixToFunction\<close> writes the entry before the attempt and never calls
  \<open>recordFixResult\<close>.
\<close>

theorem C3_attempt_result_not_recorded:
  "fst (applyFixToFunction fixer_applyFix 1000 analysis_f2 Map.empty (Map.empty, world_v1 [])) =
     Report ''f2'' Timeout
       \<lparr> fx_success = False, fx_functionName = ''f2'', fx_fixType = None, fx_version = None,
         fx_error = Some SolutionUndefined, fx_rolledBack = True \<rparr> \<and>
   fst (snd (applyFixToFunction fixer_applyFix 1000 analysis_f2 Map.empty
       (Map.empty, world_v1 []))) ''f2'' =
     Some \<lparr> attempts = 1, consecutiveFailures = 0, timestamp = 1000 \<rparr> \<and>
   (\<forall>fixer now ar fa s.
      map_option consecutiveFailures
        (fst (snd (applyFixToFunction fixer now ar fa (s :: deploymentHistory \<times> world)))
          (ar_functionName ar)) =
      Some (case fa (ar_functionName ar) of None \<Rightarrow> 0 | Some e \<Rightarrow> consecutiveFailures e))"
proof -
  have a: "fst (applyFixToFunction fixer_applyFix 1000 analysis_f2 Map.empty
        (Map.empty, world_v1 [])) =
     Report ''f2'' Timeout
       \<lparr> fx_success = False, fx_functionName = ''f2'', fx_fixType = None, fx_version = None,
         fx_error = Some SolutionUndefined, fx_rolledBack = True \<rparr>"
    by (simp add: applyFixToFunction_def fixer_applyFix_def as_fixRecommendation_def
        analysis_f2_def analyzeErrors_def world_v1_def fixer_defs Let_def)
  have b: "fst (snd (applyFixToFunction fixer_applyFix 1000 analysis_f2 Map.empty
        (Map.empty, world_v1 []))) ''f2'' =
     Some \<lparr> attempts = 1, consecutiveFailures = 0, timestamp = 1000 \<rparr>"
    by (simp add: applyFixToFunction_def analysis_f2_def recordFixAttempt_def Let_def
        split: prod.splits sum.splits)
  have c: "map_option consecutiveFailures
        (fst (snd (applyFixToFunction fixer now ar fa s)) (ar_functionName ar)) =
      Some (case fa (ar_functionName ar) of None \<Rightarrow> 0 | Some e \<Rightarrow> consecutiveFailures e)"
    for fixer :: "string \<Rightarrow> knowledge_analysis \<Rightarrow> deploymentHistory \<times> world \<Rightarrow>
        (error + fix_result) \<times> deploymentHistory \<times> world"
      and now ar fa s
    by (simp add: applyFixToFunction_def recordFixAttempt_def Let_def
        split: prod.splits sum.splits option.splits)
  from a b c show ?thesis by blast
qed

section \<open>Properties of the batching\<close>

lemma js_slice_chunk:
  "js_slice xs (int i) (int i + int n) = take n (drop i xs)"
  by (auto simp: js_slice_def Let_def min_def)

lemma chunk_loop:
  "0 < n \<Longrightarrow>
   \<exists>bs. chunkArray_loop xs (int n) (int i) acc = Some (acc @ bs) \<and> concat bs = drop i xs \<and>
        (\<forall>b\<in>set (butlast bs). length b = n) \<and>
        (bs \<noteq> [] \<longrightarrow> last bs \<noteq> [] \<and> length (last bs) \<le> n)"
proof (induction "length xs - i" arbitrary: i acc rule: less_induct)
  case less
  show ?case
  proof (cases "i < length xs")
    case False
    then have "chunkArray_loop xs (int n) (int i) acc = Some acc"
      by (subst chunkArray_loop.simps) simp
    with False show ?thesis by simp
  next
    case True
    let ?c = "take n (drop i xs)"
    have step: "chunkArray_loop xs (int n) (int i) acc =
        chunkArray_loop xs (int n) (int (i + n)) (acc @ [?c])"
      using True by (subst chunkArray_loop.simps) (simp add: js_slice_chunk)
    have "length xs - (i + n) < length xs - i" using True \<open>0 < n\<close> by arith
    from less.hyps [OF this \<open>0 < n\<close>, of "acc @ [?c]"]
    obtain bs where bs: "chunkArray_loop xs (int n) (int (i + n)) (acc @ [?c]) = Some ((acc @ [?c]) @ bs)"
      "concat bs = drop (i + n) xs" "\<forall>b\<in>set (butlast bs). length b = n"
      "bs \<noteq> [] \<longrightarrow> last bs \<noteq> [] \<and> length (last bs) \<le> n"
      by blast
    have c_ne: "?c \<noteq> []" using True \<open>0 < n\<close> by simp
    have c_len: "length ?c \<le> n" by simp
    have cat: "concat (?c # bs) = drop i xs"
      using bs(2) by (simp add: add.commute [of i n] flip: drop_drop)
    have full: "bs \<noteq> [] \<Longrightarrow> length ?c = n"
    proof -
      assume "bs \<noteq> []"
      with bs(4) have "last bs \<noteq> []" by simp
      moreover from \<open>bs \<noteq> []\<close> have "last bs \<in> set bs" by simp
      ultimately have "concat bs \<noteq> []" by auto
      with bs(2) have "i + n < length xs" by simp
      then show ?thesis by simp
    qed
    have "chunkArray_loop xs (int n) (int i) acc = Some (acc @ (?c # bs))"
      using step bs(1) by simp
    moreover have "\<forall>b\<in>set (butlast (?c # bs)). length b = n"
      using bs(3) full by auto
    moreover have "?c # bs \<noteq> [] \<longrightarrow> last (?c # bs) \<noteq> [] \<and> length (last (?c # bs)) \<le> n"
      using bs(4) c_ne c_len by auto
    ultimately show ?thesis using cat by blast
  qed
qed

lemma chunk_five:
  "chunkArray [a, b, c, d, e] 2 = Some [[a, b], [c, d], [e]]"
  by (simp add: chunkArray_def chunkArray_loop.simps js_slice_def)


lemma split_after_prefix:
  "xs @ ys = pre @ e # post \<Longrightarrow> e \<notin> set xs \<Longrightarrow> \<exists>pre'. pre = xs @ pre' \<and> ys = pre' @ e # post"
proof (induction xs arbitrary: pre)
  case Nil
  then show ?case by simp
next
  case (Cons x xs)
  then show ?case by (cases pre) auto
qed

lemma run_batches_settled_before:
  assumes "run_batches s k0 bs = pre @ Started (Suc k) x # post"
    and "k0 \<le> k" and "\<forall>b. set (s b) = set b" and "y \<in> set (bs ! (k - k0))"
  shows "Settled k y \<in> set pre"
  using assms
proof (induction bs arbitrary: k0 pre)
  case Nil
  then show ?case by simp
next
  case (Cons b bs)
  let ?seg = "map (Started k0) b @ map (Settled k0) (s b)"
  have eq: "?seg @ run_batches s (Suc k0) bs = pre @ Started (Suc k) x # post"
    using Cons.prems(1) by simp
  have notin: "Started (Suc k) x \<notin> set ?seg"
    using Cons.prems(2) by auto
  from split_after_prefix [OF eq notin] obtain pre' where
    pre: "pre = ?seg @ pre'" and rest: "run_batches s (Suc k0) bs = pre' @ Started (Suc k) x # post"
    by blast
  show ?case
  proof (cases "k = k0")
    case True
    with Cons.prems(4) have "y \<in> set b" by simp
    with Cons.prems(3) have "y \<in> set (s b)" by simp
    with True pre show ?thesis by simp
  next
    case False
    with Cons.prems(2) have le: "Suc k0 \<le> k" by simp
    then have "(b # bs) ! (k - k0) = bs ! (k - Suc k0)"
      by (simp add: Suc_diff_Suc nth_Cons')
    with Cons.prems(4) have "y \<in> set (bs ! (k - Suc k0))" by simp
    from Cons.IH [OF rest le Cons.prems(3) this] pre show ?thesis by simp
  qed
qed

lemma length_five: "length xs = 5 \<Longrightarrow> \<exists>a b c d e. xs = [a, b, c, d, e]"
  by (auto simp: length_Suc_conv numeral_eq_Suc)

text \<open>
  A limit that is zero or negative (the environment can set a negative one) never lets
  the loop index pass the length of a non-empty list: \<open>chunkArray\<close> does not return.
\<close>

lemma chunkArray_loop_diverges:
  assumes "chunkArray_loop array chunkSize i chunks = Some r"
  shows "\<not> (chunkSize \<le> 0 \<and> i < int (length array))"
proof (rule chunkArray_loop.raw_induct
    [where P = "\<lambda>array chunkSize i chunks r. \<not> (chunkSize \<le> 0 \<and> i < int (length array))",
      OF _ assms])
  fix loop :: "'a list \<Rightarrow> int \<Rightarrow> int \<Rightarrow> 'a list list \<Rightarrow> 'a list list option"
    and array chunkSize i chunks r
  assume IH: "\<And>a c j cs y. loop a c j cs = Some y \<Longrightarrow> \<not> (c \<le> 0 \<and> j < int (length a))"
    and eq: "(if i < int (length array)
              then loop array chunkSize (i + chunkSize)
                     (chunks @ [js_slice array i (i + chunkSize)])
              else Some chunks) = Some r"
  show "\<not> (chunkSize \<le> 0 \<and> i < int (length array))"
  proof
    assume h: "chunkSize \<le> 0 \<and> i < int (length array)"
    with eq have "loop array chunkSize (i + chunkSize)
        (chunks @ [js_slice array i (i + chunkSize)]) = Some r"
      by simp
    from IH [OF this] h show False by simp
  qed
qed

lemma chunkArray_never_returns:
  "chunkSize \<le> 0 \<Longrightarrow> array \<noteq> [] \<Longrightarrow> chunkArray array chunkSize = None"
  using chunkArray_loop_diverges [of array chunkSize 0 "[]"]
  by (cases "chunkArray array chunkSize") (auto simp: chunkArray_def)

text \<open>
  C9. With a concurrency limit of at least 1, \<open>chunkArray\<close> returns, and the batches it
  returns are consecutive pieces of the list of eligible resources: their concatenation
  is that list, every batch but the last has exactly the limit's size, and the last one
  is not empty and not larger. Five eligible resources and limit 2 give batches of sizes
  2, 2, 1. In the order of events of \<open>applyFixes\<close>, at the moment an attempt of batch
  k + 1 starts every attempt of batch k has settled, in whatever order the attempts of
  a batch settle.
\<close>

theorem C9_batches:
  assumes "1 \<le> maxConcurrentFixes cfg" and "\<forall>b. set (settle_order b) = set b"
  shows "\<exists>fixBatches.
     chunkArray (filter ar_shouldFix analysisResults) (maxConcurrentFixes cfg) = Some fixBatches \<and>
     concat fixBatches = filter ar_shouldFix analysisResults \<and>
     (\<forall>b\<in>set (butlast fixBatches). int (length b) = maxConcurrentFixes cfg) \<and>
     (fixBatches \<noteq> [] \<longrightarrow>
        last fixBatches \<noteq> [] \<and> int (length (last fixBatches)) \<le> maxConcurrentFixes cfg) \<and>
     (length (filter ar_shouldFix analysisResults) = 5 \<and> maxConcurrentFixes cfg = 2 \<longrightarrow>
        map length fixBatches = [2, 2, 1]) \<and>
     applyFixes_events settle_order cfg analysisResults =
        Some (run_batches settle_order 0 fixBatches) \<and>
     (\<forall>pre k x post.
        run_batches settle_order 0 fixBatches = pre @ Started (Suc k) x # post \<longrightarrow>
        (\<forall>y\<in>set (fixBatches ! k). Settled k y \<in> set pre))"
proof -
  let ?xs = "filter ar_shouldFix analysisResults"
  let ?n = "nat (maxConcurrentFixes cfg)"
  have n: "0 < ?n" "int ?n = maxConcurrentFixes cfg" using assms(1) by simp_all
  from chunk_loop [OF n(1), of ?xs 0 "[]"] obtain bs where
    bs: "chunkArray ?xs (maxConcurrentFixes cfg) = Some bs" "concat bs = ?xs"
      "\<forall>b\<in>set (butlast bs). length b = ?n"
      "bs \<noteq> [] \<longrightarrow> last bs \<noteq> [] \<and> length (last bs) \<le> ?n"
    unfolding chunkArray_def n(2) by auto
  have sizes: "\<forall>b\<in>set (butlast bs). int (length b) = maxConcurrentFixes cfg"
    using bs(3) n(2) by auto
  have lastb: "bs \<noteq> [] \<longrightarrow> last bs \<noteq> [] \<and> int (length (last bs)) \<le> maxConcurrentFixes cfg"
    using bs(4) assms(1) by (simp add: le_nat_iff)
  have five: "length ?xs = 5 \<and> maxConcurrentFixes cfg = 2 \<longrightarrow> map length bs = [2, 2, 1]"
  proof
    assume h: "length ?xs = 5 \<and> maxConcurrentFixes cfg = 2"
    then obtain a b c d e where "?xs = [a, b, c, d, e]"
      using length_five by blast
    with h bs(1) chunk_five [of a b c d e] have "bs = [[a, b], [c, d], [e]]" by simp
    then show "map length bs = [2, 2, 1]" by simp
  qed
  have ev: "applyFixes_events settle_order cfg analysisResults = Some (run_batches settle_order 0 bs)"
  proof (cases "?xs = []")
    case True
    with bs(2) bs(4) have "bs = []"
      by (metis concat_eq_Nil_conv last_in_set)
    with True show ?thesis by (simp add: applyFixes_events_def)
  next
    case False
    with bs(1) show ?thesis by (simp add: applyFixes_events_def)
  qed
  have ord: "\<forall>pre k x post.
        run_batches settle_order 0 bs = pre @ Started (Suc k) x # post \<longrightarrow>
        (\<forall>y\<in>set (bs ! k). Settled k y \<in> set pre)"
    using run_batches_settled_before [where ?k0.0 = 0 and s = settle_order and bs = bs] assms(2)
    by auto
  note chunked = bs(1) and cat = bs(2)
  show ?thesis
    by (intro exI [of _ bs] conjI) (fact chunked cat sizes lastb five ev ord)+
qed

theorem C9_batches_witness:
  "1 \<le> maxConcurrentFixes config_5min \<and>
   (\<forall>b :: analysis_result list. set (rev b) = set b) \<and>
   map_option (map length)
     (chunkArray (filter ar_shouldFix five_eligible) (maxConcurrentFixes config_5min)) =
     Some [2, 2, 1] \<and>
   applyFixes_events rev config_5min five_eligible =
     Some [Started 0 (eligible ''f1''), Started 0 (eligible ''f2''),
           Settled 0 (eligible ''f2''), Settled 0 (eligible ''f1''),
           Started 1 (eligible ''f3''), Started 1 (eligible ''f4''),
           Settled 1 (eligible ''f4''), Settled 1 (eligible ''f3''),
           Started 2 (eligible ''f5''), Settled 2 (eligible ''f5'')]"
proof -
  have h1: "1 \<le> maxConcurrentFixes config_5min" by (simp add: config_5min_def)
  have h2: "\<forall>b :: analysis_result list. set (rev b) = set b" by simp
  have all: "filter ar_shouldFix five_eligible = five_eligible"
    by (simp add: five_eligible_def eligible_def analysis_f2_def)
  have len: "length (filter ar_shouldFix five_eligible) = 5 \<and> maxConcurrentFixes config_5min = 2"
    unfolding all by (simp add: five_eligible_def config_5min_def)
  from C9_batches [OF h1 h2, of five_eligible] obtain fixBatches where
    b: "chunkArray (filter ar_shouldFix five_eligible) (maxConcurrentFixes config_5min) =
          Some fixBatches"
      "length (filter ar_shouldFix five_eligible) = 5 \<and> maxConcurrentFixes config_5min = 2 \<longrightarrow>
          map length fixBatches = [2, 2, 1]"
    by (elim exE conjE) (rule that)
  from b len have sizes: "map_option (map length)
     (chunkArray (filter ar_shouldFix five_eligible) (maxConcurrentFixes config_5min)) =
     Some [2, 2, 1]"
    by simp
  have chunks: "chunkArray five_eligible 2 =
      Some [[eligible ''f1'', eligible ''f2''], [eligible ''f3'', eligible ''f4''],
            [eligible ''f5'']]"
    unfolding five_eligible_def list.map by (rule chunk_five)
  have ne: "five_eligible \<noteq> []" by (simp add: five_eligible_def)
  have ev: "applyFixes_events rev config_5min five_eligible =
     Some [Started 0 (eligible ''f1''), Started 0 (eligible ''f2''),
           Settled 0 (eligible ''f2''), Settled 0 (eligible ''f1''),
           Started 1 (eligible ''f3''), Started 1 (eligible ''f4''),
           Settled 1 (eligible ''f4''), Settled 1 (eligible ''f3''),
           Started 2 (eligible ''f5''), Settled 2 (eligible ''f5'')]"
    unfolding applyFixes_events_def all
    using ne by (simp add: config_5min_def chunks)
  from h1 h2 sizes ev show ?thesis by (intro conjI)
qed

section \<open>Properties of the attempt state machine\<close>

lemma callLambdaMCP_Inl:
  "callLambdaMCP operation service w = (Inl e, w') \<Longrightarrow> e = McpFailed operation"
  by (auto simp: callLambdaMCP_def split: list.splits if_splits prod.splits)

lemma callLambdaMCP_Inr:
  "callLambdaMCP operation service w = (Inr r, w') \<Longrightarrow>
   \<exists>w0. lambda_functions w0 = lambda_functions w \<and> service w0 = (r, w')"
proof (cases "failures w")
  case Nil
  assume "callLambdaMCP operation service w = (Inr r, w')"
  with Nil have "service w = (r, w')"
    by (auto simp: callLambdaMCP_def split: prod.splits)
  then show ?thesis by blast
next
  case (Cons fails rest)
  assume "callLambdaMCP operation service w = (Inr r, w')"
  with Cons have "service (w\<lparr>failures := rest\<rparr>) = (r, w')"
    by (auto simp: callLambdaMCP_def split: prod.splits if_splits)
  moreover have "lambda_functions (w\<lparr>failures := rest\<rparr>) = lambda_functions w"
    by simp
  ultimately show ?thesis by blast
qed

lemma await_Inl:
  "await m k w = (Inl e, w'') \<Longrightarrow>
   m w = (Inl e, w'') \<or> (\<exists>x w'. m w = (Inr x, w') \<and> k x w' = (Inl e, w''))"
  by (auto simp: await_def split: prod.splits sum.splits)

lemma await_Inr:
  "await m k w = (Inr y, w'') \<Longrightarrow> \<exists>x w'. m w = (Inr x, w') \<and> k x w' = (Inr y, w'')"
  by (auto simp: await_def split: prod.splits sum.splits)

lemma rollbackFix_Inl:
  "rollbackFix f st w = (Inl e, w') \<Longrightarrow> e = McpFailed ''updateAlias''"
  by (auto simp: rollbackFix_def return_value_def dest!: await_Inl dest: callLambdaMCP_Inl)

lemma rollbackFix_Inr:
  "rollbackFix f st w = (Inr v, w') \<Longrightarrow> fn_PROD (lambda_functions w' f) = currentVersion st"
  by (auto simp: rollbackFix_def return_value_def updateAlias_svc_def update_function_def
      dest!: await_Inr callLambdaMCP_Inr)

lemma getCurrentFunctionState_Inl:
  "getCurrentFunctionState f w = (Inl e, w') \<Longrightarrow> e \<noteq> FixVerificationFailed"
  by (auto simp: getCurrentFunctionState_def return_value_def
      dest!: await_Inl dest: callLambdaMCP_Inl)

lemma publish_and_point_Inl:
  "publish_and_point f ty w = (Inl e, w') \<Longrightarrow> e \<noteq> FixVerificationFailed"
  by (auto simp: publish_and_point_def return_value_def dest!: await_Inl dest: callLambdaMCP_Inl)

lemma publish_and_point_alias:
  assumes "publish_and_point f ty w = (Inr fo, w')"
  shows "fn_PROD (lambda_functions w' f) = fo_version fo"
proof -
  from assms obtain v w1 where
    2: "await (callLambdaMCP ''updateAlias'' (updateAlias_svc f v))
          (\<lambda>aliasUpdate. return_value \<lparr> fo_type = ty, fo_version = v \<rparr>) w1 = (Inr fo, w')"
    unfolding publish_and_point_def by (blast dest: await_Inr)
  from 2 obtain u w2 where
    3: "callLambdaMCP ''updateAlias'' (updateAlias_svc f v) w1 = (Inr u, w2)" and
    4: "return_value \<lparr> fo_type = ty, fo_version = v \<rparr> w2 = (Inr fo, w')"
    by (blast dest: await_Inr)
  from 3 obtain w0 where "updateAlias_svc f v w0 = (u, w2)"
    by (blast dest: callLambdaMCP_Inr)
  then have "fn_PROD (lambda_functions w2 f) = v"
    by (auto simp: updateAlias_svc_def update_function_def)
  with 4 show ?thesis by (auto simp: return_value_def)
qed

lemma executeFix_Inl:
  "executeFix f fr w = (Inl e, w') \<Longrightarrow> e \<noteq> FixVerificationFailed"
  by (auto simp: executeFix_def throw_def updateFunctionTimeout_def updateFunctionMemory_def
      updateFunctionDependencies_def fixFunctionSyntax_def addErrorHandling_def update_code_def
      split: option.splits solution.splits
      dest!: await_Inl dest: callLambdaMCP_Inl publish_and_point_Inl)

lemma executeFix_alias:
  assumes "executeFix f fr w = (Inr fo, w')"
  shows "fn_PROD (lambda_functions w' f) = fo_version fo"
  using assms
  by (auto simp: executeFix_def throw_def updateFunctionTimeout_def updateFunctionMemory_def
      updateFunctionDependencies_def fixFunctionSyntax_def addErrorHandling_def update_code_def
      split: option.splits solution.splits
      dest!: await_Inr dest: publish_and_point_alias)

lemma verifyFix_keeps_functions:
  "verifyFix f fo w = (v, w') \<Longrightarrow> lambda_functions w' = lambda_functions w"
  by (auto simp: verifyFix_def await_def return_value_def callLambdaMCP_def
      getFunction_svc_def getAlias_svc_def split: list.splits if_splits prod.splits sum.splits)

text \<open>
  On this control plane a successful result carries the version PROD points at, for
  every kind of fix.
\<close>

lemma applyFix_committed:
  assumes "applyFix f fr h w = (r, h', w')" and "fx_success r"
  shows "\<exists>v. fx_version r = Some v \<and> fn_PROD (lambda_functions w' f) = v"
  using assms
  by (auto simp: applyFix_def applyFix_catch_def Let_def
      split: prod.splits sum.splits if_splits
      dest!: executeFix_alias dest: verifyFix_keeps_functions)

text \<open>
  When the rollback after a failed verification succeeded (the result then has the
  error "Fix verification failed"), PROD points at the version of the snapshot.
\<close>

lemma applyFix_rolled_back_after_verification:
  assumes "applyFix f fr h w = (r, h', w')" and "fx_error r = Some FixVerificationFailed"
  shows "\<exists>snap. h' f = Some snap \<and> fn_PROD (lambda_functions w' f) = currentVersion snap"
  using assms
  by (auto simp: applyFix_def applyFix_catch_def Let_def
      split: prod.splits sum.splits if_splits
      dest: getCurrentFunctionState_Inl executeFix_Inl rollbackFix_Inl rollbackFix_Inr)

text \<open>
  C1 (what the code does). A dependency fix on f1: the snapshot, the upload, the publish
  and the alias update succeed, the read of the verification fails, and both
  \<open>updateAlias\<close> calls of the rollback (the one after the verification and the one of
  the \<open>catch\<close> block) fail. The result has \<open>rolledBack = True\<close> although PROD still
  points at the new version 2. No result of \<open>applyFix\<close> is a failure without
  \<open>rolledBack\<close>: every result is a success or reports a rollback.
\<close>

theorem C1_failed_rollback_reported_as_rolled_back:
  "fst (applyFix ''f1'' dependency_fix Map.empty
      (world_v1 [False, False, False, False, False, False, True, True, True])) =
     \<lparr> fx_success = False, fx_functionName = ''f1'', fx_fixType = None, fx_version = None,
       fx_error = Some (McpFailed ''updateAlias''), fx_rolledBack = True \<rparr> \<and>
   fn_PROD (lambda_functions (snd (snd (applyFix ''f1'' dependency_fix Map.empty
      (world_v1 [False, False, False, False, False, False, True, True, True])))) ''f1'') = 2 \<and>
   (\<forall>f fr h w. fx_success (fst (applyFix f fr h w)) \<or> fx_rolledBack (fst (applyFix f fr h w)))"
proof -
  have a: "fst (applyFix ''f1'' dependency_fix Map.empty
      (world_v1 [False, False, False, False, False, False, True, True, True])) =
     \<lparr> fx_success = False, fx_functionName = ''f1'', fx_fixType = None, fx_version = None,
       fx_error = Some (McpFailed ''updateAlias''), fx_rolledBack = True \<rparr>"
    by (simp add: fixer_defs world_v1_def dependency_fix_def Let_def)
  have b: "fn_PROD (lambda_functions (snd (snd (applyFix ''f1'' dependency_fix Map.empty
      (world_v1 [False, False, False, False, False, False, True, True, True])))) ''f1'') = 2"
    by (simp add: fixer_defs world_v1_def dependency_fix_def Let_def)
  have c: "fx_success (fst (applyFix f fr h w)) \<or> fx_rolledBack (fst (applyFix f fr h w))"
    for f fr h w
    by (auto simp: applyFix_def applyFix_catch_def Let_def split: prod.splits sum.splits)
  from a b c show ?thesis by blast
qed

text \<open>
  C2 (what the code does). A timeout fix on f2 whose verification read and rollback
  calls fail: the snapshot holds version 1, the attempt ends with \<open>rolledBack = True\<close>,
  and PROD points at the newly published version 2.
\<close>

theorem C2_rolled_back_with_alias_on_new_version:
  "\<not> fx_success (fst (applyFix ''f2'' timeout_fix Map.empty
      (world_v1 [False, False, False, False, False, True, True, True]))) \<and>
   fx_rolledBack (fst (applyFix ''f2'' timeout_fix Map.empty
      (world_v1 [False, False, False, False, False, True, True, True]))) \<and>
   map_option currentVersion (fst (snd (applyFix ''f2'' timeout_fix Map.empty
      (world_v1 [False, False, False, False, False, True, True, True]))) ''f2'') = Some 1 \<and>
   fn_PROD (lambda_functions (snd (snd (applyFix ''f2'' timeout_fix Map.empty
      (world_v1 [False, False, False, False, False, True, True, True])))) ''f2'') = 2"
  by (simp add: fixer_defs world_v1_def timeout_fix_def Let_def)

end
